theory Spec2Isabelle
  imports Complex_Main
begin

section \<open>JavaScript values used by the components\<close>

text \<open>
  Reading an array at an integer index gives \<open>undefined\<close> outside \<open>0 .. length - 1\<close>
  (also at negative indices); \<open>undefined\<close> is \<open>None\<close>.
\<close>

definition js_index :: "'a list \<Rightarrow> int \<Rightarrow> 'a option" where
  "js_index xs k = (if 0 \<le> k \<and> k < int (length xs) then Some (xs ! nat k) else None)"

text \<open>The operator \<open>a ?? b\<close>: \<open>b\<close> when \<open>a\<close> is \<open>undefined\<close>, otherwise \<open>a\<close>.\<close>

definition nullish :: "'a option \<Rightarrow> 'a option \<Rightarrow> 'a option" where
  "nullish a b = (case a of Some v \<Rightarrow> Some v | None \<Rightarrow> b)"

text \<open>
  \<open>Array.prototype.findIndex\<close>: the index of the first element that satisfies the
  predicate, \<open>-1\<close> when there is none. The second argument is the index of the head.
\<close>

fun findIndex_from :: "('a \<Rightarrow> bool) \<Rightarrow> int \<Rightarrow> 'a list \<Rightarrow> int" where
  "findIndex_from p k [] = - 1"
| "findIndex_from p k (x # xs) = (if p x then k else findIndex_from p (k + 1) xs)"

definition findIndex :: "('a \<Rightarrow> bool) \<Rightarrow> 'a list \<Rightarrow> int" where
  "findIndex p xs = findIndex_from p 0 xs"

datatype js_error = TypeError

text \<open>
  Numbers. The components add and subtract one, compare and round; on the values they
  meet (cart quantities, which are integers far below \<open>2^53\<close>, and pixel coordinates,
  which are only compared) the arithmetic of the Number type is exact, so a number is a
  rational here.
\<close>

type_synonym number = rat

text \<open>\<open>a || b\<close> on an optional number: \<open>undefined\<close> and \<open>0\<close> are falsy.\<close>

definition number_or :: "number option \<Rightarrow> number \<Rightarrow> number" where
  "number_or a b = (case a of None \<Rightarrow> b | Some v \<Rightarrow> if v \<noteq> 0 then v else b)"

text \<open>\<open>a || b\<close> on an optional string: \<open>undefined\<close> and the empty string are falsy.\<close>

definition string_or :: "string option \<Rightarrow> string \<Rightarrow> string" where
  "string_or a b = (case a of None \<Rightarrow> b | Some v \<Rightarrow> if v \<noteq> [] then v else b)"

text \<open>Truthiness of an optional boolean flag (\<open>undefined\<close> is falsy).\<close>

definition truthy :: "bool option \<Rightarrow> bool" where
  "truthy b = (case b of None \<Rightarrow> False | Some v \<Rightarrow> v)"

text \<open>
  \<open>Number(x.toFixed(0))\<close>: \<open>toFixed\<close> takes the sign off, picks the integer nearest
  to the magnitude (the larger one at a tie) and prints it; \<open>Number\<close> reads it back.
\<close>

definition toFixed0 :: "number \<Rightarrow> number" where
  "toFixed0 x = (if x < 0 then - of_int \<lfloor>- x + 1 / 2\<rfloor> else of_int \<lfloor>x + 1 / 2\<rfloor>)"

text \<open>
  \<open>clsx\<close> on a flat list of class strings: the falsy (empty) ones are dropped and the
  others joined by one space.
\<close>

fun clsx :: "string list \<Rightarrow> string" where
  "clsx [] = []"
| "clsx (c # cs) =
     (if c = [] then clsx cs
      else (let r = clsx cs in if r = [] then c else c @ '' '' @ r))"

section \<open>Media zoom viewer (media-zoom.tsx)\<close>

datatype media_content_type = IMAGE | VIDEO | EXTERNAL_VIDEO | MODEL_3D

record media_fragment =
  media_id :: string
  mediaContentType :: media_content_type
  alt :: "string option"

subsection \<open>Values derived in the body of ZoomModal\<close>

definition zoomMedia :: "media_fragment list \<Rightarrow> string \<Rightarrow> media_fragment option" where
  "zoomMedia media zoomMediaId = find (\<lambda>med. media_id med = zoomMediaId) media"

definition zoomMediaIndex :: "media_fragment list \<Rightarrow> string \<Rightarrow> int" where
  "zoomMediaIndex media zoomMediaId = findIndex (\<lambda>med. media_id med = zoomMediaId) media"

text \<open>
  \<open>media[zoomMediaIndex + 1] ?? media[0]\<close> and
  \<open>media[zoomMediaIndex - 1] ?? media[media.length - 1]\<close>, first as functions of the index.
\<close>

definition nextMediaAt :: "media_fragment list \<Rightarrow> int \<Rightarrow> media_fragment option" where
  "nextMediaAt media i = nullish (js_index media (i + 1)) (js_index media 0)"

definition prevMediaAt :: "media_fragment list \<Rightarrow> int \<Rightarrow> media_fragment option" where
  "prevMediaAt media i =
     nullish (js_index media (i - 1)) (js_index media (int (length media) - 1))"

definition nextMedia :: "media_fragment list \<Rightarrow> string \<Rightarrow> media_fragment option" where
  "nextMedia media zoomMediaId = nextMediaAt media (zoomMediaIndex media zoomMediaId)"

definition prevMedia :: "media_fragment list \<Rightarrow> string \<Rightarrow> media_fragment option" where
  "prevMedia media zoomMediaId = prevMediaAt media (zoomMediaIndex media zoomMediaId)"

subsection \<open>Thumbnail visibility and scrolling\<close>

text \<open>
  A \<open>DOMRect\<close> as \<open>getBoundingClientRect\<close> returns it. Its four edges are read-only
  getters over the origin and the size: \<open>top\<close> and \<open>left\<close> are the smaller, \<open>bottom\<close>
  and \<open>right\<close> the larger coordinate. The coordinates are finite numbers, which the
  component only compares.
\<close>

record dom_rect =
  rect_x :: number
  rect_y :: number
  rect_width :: number
  rect_height :: number

definition rect_top :: "dom_rect \<Rightarrow> number" where
  "rect_top r = min (rect_y r) (rect_y r + rect_height r)"

definition rect_bottom :: "dom_rect \<Rightarrow> number" where
  "rect_bottom r = max (rect_y r) (rect_y r + rect_height r)"

definition rect_left :: "dom_rect \<Rightarrow> number" where
  "rect_left r = min (rect_x r) (rect_x r + rect_width r)"

definition rect_right :: "dom_rect \<Rightarrow> number" where
  "rect_right r = max (rect_x r) (rect_x r + rect_width r)"

text \<open>
  \<open>isVisibleInParent(child, parent)\<close>. The parent is \<open>scrollAreaRef.current\<close>, which is
  \<open>null\<close> while the scroll area is not mounted; calling a method on it throws.
\<close>

definition isVisibleInParent :: "dom_rect \<Rightarrow> dom_rect option \<Rightarrow> js_error + bool" where
  "isVisibleInParent childRect parent =
     (case parent of
        None \<Rightarrow> Inl TypeError
      | Some parentRect \<Rightarrow>
          Inr (rect_top childRect \<ge> rect_top parentRect \<and>
               rect_bottom childRect \<le> rect_bottom parentRect \<and>
               rect_left childRect \<ge> rect_left parentRect \<and>
               rect_right childRect \<le> rect_right parentRect))"

text \<open>
  What a handler does to the outside: it sets the shared selected identifier and it
  calls \<open>scrollIntoView\<close> (with smooth behaviour) on an element, named by its DOM id.
  A handler either runs to its end or throws after the effects it has already had.
\<close>

datatype effect = SetZoomMediaId string | ScrollIntoView string

datatype outcome = Done "effect list" | Threw js_error "effect list"


text \<open>
  The page the handlers see: \<open>parseGid\<close> of the commerce SDK (its \<open>id\<close> component),
  \<open>document.getElementById\<close> followed by the bounding box of the element found, and the
  bounding box of \<open>scrollAreaRef.current\<close>.
\<close>

record page =
  parseGid :: "string \<Rightarrow> string"
  getElementById :: "string \<Rightarrow> dom_rect option"
  scrollArea :: "dom_rect option"

definition thumbnailId :: "page \<Rightarrow> string \<Rightarrow> string" where
  "thumbnailId pg ident = ''zoom-media--'' @ parseGid pg ident"

definition scrollToMedia :: "page \<Rightarrow> string \<Rightarrow> outcome" where
  "scrollToMedia pg ident =
     (case getElementById pg (thumbnailId pg ident) of
        None \<Rightarrow> Done []
      | Some childRect \<Rightarrow>
          (case isVisibleInParent childRect (scrollArea pg) of
             Inl e \<Rightarrow> Threw e []
           | Inr isVisible \<Rightarrow>
               if \<not> isVisible then Done [ScrollIntoView (thumbnailId pg ident)] else Done []))"

subsection \<open>Navigation handlers\<close>

text \<open>
  \<open>setZoomMediaId(target.id); scrollToMedia(target.id)\<close>: reading \<open>id\<close> of an
  \<open>undefined\<close> target throws before anything is set.
\<close>

definition navigateTo :: "page \<Rightarrow> media_fragment option \<Rightarrow> outcome" where
  "navigateTo pg target =
     (case target of
        None \<Rightarrow> Threw TypeError []
      | Some m \<Rightarrow>
          (case scrollToMedia pg (media_id m) of
             Done es \<Rightarrow> Done (SetZoomMediaId (media_id m) # es)
           | Threw e es \<Rightarrow> Threw e (SetZoomMediaId (media_id m) # es)))"

definition handleKeyDown :: "page \<Rightarrow> media_fragment list \<Rightarrow> string \<Rightarrow> string \<Rightarrow> outcome" where
  "handleKeyDown pg media zoomMediaId key =
     (if key = ''ArrowRight'' \<or> key = ''ArrowDown'' then navigateTo pg (nextMedia media zoomMediaId)
      else if key = ''ArrowLeft'' \<or> key = ''ArrowUp'' then navigateTo pg (prevMedia media zoomMediaId)
      else Done [])"

definition onClickPrev :: "page \<Rightarrow> media_fragment list \<Rightarrow> string \<Rightarrow> outcome" where
  "onClickPrev pg media zoomMediaId = navigateTo pg (prevMedia media zoomMediaId)"

definition onClickNext :: "page \<Rightarrow> media_fragment list \<Rightarrow> string \<Rightarrow> outcome" where
  "onClickNext pg media zoomMediaId = navigateTo pg (nextMedia media zoomMediaId)"



section \<open>Cart view (the second module of media-zoom.tsx)\<close>

datatype layouts = LayoutPage | LayoutDrawer

record product =
  handle :: string
  product_title :: string

record merchandise =
  merchandise_title :: string
  product :: "product option"

text \<open>
  A cart line as the optimistic cart hands it over. \<open>isOptimistic\<close> is the flag the
  optimistic-cart facility puts on a line it is still changing.
\<close>

record cart_line =
  line_id :: string
  quantity :: "number option"
  merchandise :: "merchandise option"
  isOptimistic :: "bool option"

text \<open>The patch \<open>OptimisticData\<close>: both fields are optional.\<close>

record optimistic_data =
  action :: "string option"
  patch_quantity :: "number option"

text \<open>
  The optimistic-state facility is outside the repository; it is the store of pending
  patches by identifier, and \<open>useOptimisticData\<close> reads it.
\<close>

type_synonym optimistic_store = "string \<Rightarrow> optimistic_data option"

definition useOptimisticData :: "optimistic_store \<Rightarrow> string \<Rightarrow> optimistic_data option" where
  "useOptimisticData store ident = store ident"

subsection \<open>Mutation forms\<close>

datatype cart_form_action = LinesUpdate | LinesRemove | DiscountCodesUpdate

record cart_line_update_input =
  input_id :: string
  input_quantity :: number

datatype cart_form_inputs =
    LineIds "string list"
  | Lines "cart_line_update_input list"
  | DiscountCodes "string list"

text \<open>
  A \<open>CartForm\<close> element: where it posts, the action, the structured input, and the
  \<open>OptimisticInput\<close> (identifier and patch) found among its children.
\<close>

record cart_form =
  route :: string
  form_action :: cart_form_action
  inputs :: cart_form_inputs
  optimisticInput :: "(string \<times> optimistic_data) option"

definition ItemRemoveButton :: "string \<Rightarrow> cart_form" where
  "ItemRemoveButton lineId =
     \<lparr>route = ''/cart'', form_action = LinesRemove, inputs = LineIds [lineId],
      optimisticInput = Some (lineId, \<lparr>action = Some ''remove'', patch_quantity = None\<rparr>)\<rparr>"

definition UpdateCartButton ::
  "(string \<times> optimistic_data) option \<Rightarrow> cart_line_update_input list \<Rightarrow> cart_form" where
  "UpdateCartButton children lns =
     \<lparr>route = ''/cart'', form_action = LinesUpdate, inputs = Lines lns,
      optimisticInput = children\<rparr>"

definition UpdateDiscountForm :: "string list option \<Rightarrow> cart_form" where
  "UpdateDiscountForm discountCodes =
     \<lparr>route = ''/cart'', form_action = DiscountCodesUpdate,
      inputs = DiscountCodes (case discountCodes of None \<Rightarrow> [] | Some cs \<Rightarrow> cs),
      optimisticInput = None\<rparr>"

subsection \<open>Quantity adjuster\<close>

text \<open>One of the two submit buttons, inside its form.\<close>

record quantity_control =
  form :: cart_form
  button_name :: string
  button_value :: number
  disabled :: bool

record quantity_adjust =
  label_quantity :: number
  decrease :: quantity_control
  item_quantity :: number
  increase :: quantity_control

definition optimisticQuantityOf :: "optimistic_data option \<Rightarrow> number \<Rightarrow> number" where
  "optimisticQuantityOf optimisticData lineQuantity =
     number_or (Option.bind optimisticData patch_quantity) lineQuantity"

definition CartLineQuantityAdjust :: "optimistic_store \<Rightarrow> cart_line option \<Rightarrow> quantity_adjust option" where
  "CartLineQuantityAdjust store line =
     (case line of
        None \<Rightarrow> None
      | Some l \<Rightarrow>
          (case quantity l of
             None \<Rightarrow> None
           | Some lineQuantity \<Rightarrow>
               (let optimisticId = line_id l;
                    optimisticData = useOptimisticData store optimisticId;
                    optimisticQuantity = optimisticQuantityOf optimisticData lineQuantity;
                    lineId = line_id l;
                    prevQuantity = toFixed0 (max 0 (optimisticQuantity - 1));
                    nextQuantity = toFixed0 (optimisticQuantity + 1)
                in Some
                  \<lparr>label_quantity = optimisticQuantity,
                   decrease =
                     \<lparr>form = UpdateCartButton
                        (Some (optimisticId, \<lparr>action = None, patch_quantity = Some prevQuantity\<rparr>))
                        [\<lparr>input_id = lineId, input_quantity = prevQuantity\<rparr>],
                      button_name = ''decrease-quantity'',
                      button_value = prevQuantity,
                      disabled = (optimisticQuantity \<le> 1 \<or> truthy (isOptimistic l))\<rparr>,
                   item_quantity = optimisticQuantity,
                   increase =
                     \<lparr>form = UpdateCartButton
                        (Some (optimisticId, \<lparr>action = None, patch_quantity = Some nextQuantity\<rparr>))
                        [\<lparr>input_id = lineId, input_quantity = nextQuantity\<rparr>],
                      button_name = ''increase-quantity'',
                      button_value = nextQuantity,
                      disabled = truthy (isOptimistic l)\<rparr>\<rparr>)))"

subsection \<open>Line item\<close>

text \<open>
  The \<open>li\<close> of a line: its inline \<open>display\<close>, the remove button of the drawer layout
  (beside the title), the quantity adjuster and the remove button of the page layout
  (in the controls row). Image, title link and price carry no form and are left out.
\<close>

record line_item =
  display :: string
  removeButtonTop :: "cart_form option"
  quantityAdjust :: "quantity_adjust option"
  removeButtonRow :: "cart_form option"

definition CartLineItem :: "optimistic_store \<Rightarrow> layouts \<Rightarrow> cart_line option \<Rightarrow> line_item option" where
  "CartLineItem store layout line =
     (case line of
        None \<Rightarrow> None
      | Some l \<Rightarrow>
          if line_id l = [] then None
          else
            (case quantity l of
               None \<Rightarrow> None
             | Some q \<Rightarrow>
                 (case Option.bind (merchandise l) product of
                    None \<Rightarrow> None
                  | Some pr \<Rightarrow>
                      Some
                        \<lparr>display =
                           (if Option.bind (useOptimisticData store (line_id l)) action = Some ''remove''
                            then ''none'' else ''flex''),
                         removeButtonTop =
                           (if layout = LayoutDrawer then Some (ItemRemoveButton (line_id l)) else None),
                         quantityAdjust = CartLineQuantityAdjust store line,
                         removeButtonRow =
                           (if layout = LayoutPage then Some (ItemRemoveButton (line_id l)) else None)\<rparr>)))"

text \<open>The forms mounted under a rendered line item, in document order.\<close>

definition mountedForms :: "line_item \<Rightarrow> cart_form list" where
  "mountedForms item =
     (case removeButtonTop item of None \<Rightarrow> [] | Some f \<Rightarrow> [f]) @
     (case quantityAdjust item of None \<Rightarrow> [] | Some qa \<Rightarrow> [form (decrease qa), form (increase qa)]) @
     (case removeButtonRow item of None \<Rightarrow> [] | Some f \<Rightarrow> [f])"

definition CartLines :: "optimistic_store \<Rightarrow> layouts \<Rightarrow> cart_line list \<Rightarrow> line_item option list" where
  "CartLines store layout currentLines = map (\<lambda>line. CartLineItem store layout (Some line)) currentLines"

subsection \<open>Top-level branch\<close>

record cart_api_query =
  totalQuantity :: number

record lines_connection =
  nodes :: "cart_line list option"

record optimistic_cart =
  lines :: "lines_connection option"

text \<open>
  The root element of \<open>CartEmpty\<close>: the \<open>hidden\<close> attribute and the class string.
  \<open>y\<close> is the scroll offset read by \<open>useScroll\<close>.
\<close>

record cart_empty =
  hidden :: bool
  className :: string
  link_to :: string

definition CartEmpty :: "bool \<Rightarrow> layouts \<Rightarrow> number \<Rightarrow> cart_empty" where
  "CartEmpty hid layout y =
     \<lparr>hidden = hid,
      className = clsx
        ((if layout = LayoutDrawer then
            [''content-start space-y-12 px-5 pb-5 transition overflow-y-scroll h-screen-dynamic w-[400px]'',
             (if y > 0 then ''border-t'' else [])]
          else []) @
         (if layout = LayoutPage then
            [(if hid then [] else ''grid''),
             ''pb-12 w-full md:items-start gap-4 md:gap-8 lg:gap-12'']
          else [])),
      link_to = (if layout = LayoutPage then ''/products'' else [])\<rparr>"

datatype cart_view =
    CartDetails layouts "optimistic_cart option"
  | CartEmptyView cart_empty

text \<open>\<open>optimisticCart?.lines?.nodes?.length || 0\<close>, the optimistic line count.\<close>

definition optimisticLineCount :: "optimistic_cart option \<Rightarrow> nat" where
  "optimisticLineCount optimisticCart =
     (case Option.bind (Option.bind optimisticCart lines) nodes of
        None \<Rightarrow> 0
      | Some ns \<Rightarrow> length ns)"

text \<open>\<open>Boolean(...)\<close> of that count.\<close>

definition linesCount :: "optimistic_cart option \<Rightarrow> bool" where
  "linesCount optimisticCart = (optimisticLineCount optimisticCart \<noteq> 0)"

definition cartHasItems :: "cart_api_query option \<Rightarrow> bool" where
  "cartHasItems cart = (case cart of None \<Rightarrow> False | Some c \<Rightarrow> totalQuantity c > 0)"

text \<open>
  \<open>Cart\<close>. The optimistic cart is what \<open>useOptimisticCart(cart)\<close> returned; the facility
  is outside the repository, so its result is an argument.
\<close>

definition Cart ::
  "layouts \<Rightarrow> number \<Rightarrow> cart_api_query option \<Rightarrow> optimistic_cart option \<Rightarrow> cart_view" where
  "Cart layout y cart optimisticCart =
     (if cartHasItems cart then CartDetails layout optimisticCart
      else CartEmptyView (CartEmpty (linesCount optimisticCart) layout y))"

text \<open>Which of the two views a visitor sees.\<close>

definition detailsRendered :: "cart_view \<Rightarrow> bool" where
  "detailsRendered v = (case v of CartDetails _ _ \<Rightarrow> True | CartEmptyView _ \<Rightarrow> False)"

definition emptyStateShown :: "cart_view \<Rightarrow> bool" where
  "emptyStateShown v = (case v of CartDetails _ _ \<Rightarrow> False | CartEmptyView e \<Rightarrow> \<not> hidden e)"

subsection \<open>The lines under the details view\<close>

text \<open>
  \<open>CartDetails\<close> hands \<open>cart?.lines?.nodes\<close> of the optimistic cart to \<open>CartLines\<close>,
  which maps over them. Reading \<open>cart.cost\<close> of an absent cart throws, and so does mapping
  over absent nodes.
\<close>

definition CartDetailsLines ::
  "optimistic_store \<Rightarrow> layouts \<Rightarrow> optimistic_cart option \<Rightarrow> js_error + line_item option list" where
  "CartDetailsLines store layout cart =
     (case cart of
        None \<Rightarrow> Inl TypeError
      | Some c \<Rightarrow>
          (case Option.bind (lines c) nodes of
             None \<Rightarrow> Inl TypeError
           | Some currentLines \<Rightarrow> Inr (CartLines store layout currentLines)))"

text \<open>The line items in what \<open>Cart\<close> returned; the empty-state view has none.\<close>

definition renderedLines :: "optimistic_store \<Rightarrow> cart_view \<Rightarrow> js_error + line_item option list" where
  "renderedLines store v =
     (case v of
        CartDetails layout cart \<Rightarrow> CartDetailsLines store layout cart
      | CartEmptyView e \<Rightarrow> Inr [])"

text \<open>The forms mounted under those line items, in document order.\<close>

definition mountedLineForms :: "optimistic_store \<Rightarrow> cart_view \<Rightarrow> cart_form list" where
  "mountedLineForms store v =
     (case renderedLines store v of
        Inl e \<Rightarrow> []
      | Inr items \<Rightarrow>
          concat (map (\<lambda>i. case i of None \<Rightarrow> [] | Some item \<Rightarrow> mountedForms item) items))"

section \<open>Footer newsletter form (footer.tsx)\<close>

record newsletter_response =
  ok :: bool
  response_error :: "string option"

record newsletter_state =
  message :: string
  error :: string

definition initialState :: newsletter_state where
  "initialState = \<lparr>message = [], error = []\<rparr>"

text \<open>The success text ends in the party-popper emoji, given here by its UTF-8 bytes.\<close>

definition successMessage :: string where
  "successMessage = ''Thank you for signing up! '' @ [CHR 0xF0, CHR 0x9F, CHR 0x8E, CHR 0x89]"

definition fallbackError :: string where
  "fallbackError = ''An error occurred while signing up.''"

text \<open>The effect that runs when \<open>fetcher.data\<close> changes.\<close>

definition onResponse :: "newsletter_state \<Rightarrow> newsletter_response option \<Rightarrow> newsletter_state" where
  "onResponse s newsLetterResponse =
     (case newsLetterResponse of
        None \<Rightarrow> s
      | Some r \<Rightarrow>
          if \<not> ok r then s\<lparr>error := string_or (response_error r) fallbackError\<rparr>
          else s\<lparr>message := successMessage\<rparr>)"

text \<open>The form's \<open>onSubmit\<close>: both texts are emptied, then the form is submitted.\<close>

definition onSubmit :: "newsletter_state \<Rightarrow> newsletter_state" where
  "onSubmit s = s\<lparr>message := [], error := []\<rparr>"

text \<open>The two boxes under the form: each is rendered only for a non-empty text.\<close>

record newsletter_view =
  error_box :: "string option"
  message_box :: "string option"

definition render :: "newsletter_state \<Rightarrow> newsletter_view" where
  "render s =
     \<lparr>error_box = (if error s \<noteq> [] then Some (error s) else None),
      message_box = (if message s \<noteq> [] then Some (message s) else None)\<rparr>"

text \<open>A run of the form: submissions and the responses that complete them.\<close>

datatype newsletter_event = Submit | Completed newsletter_response

fun step :: "newsletter_state \<Rightarrow> newsletter_event \<Rightarrow> newsletter_state" where
  "step s Submit = onSubmit s"
| "step s (Completed r) = onResponse s (Some r)"

definition run :: "newsletter_event list \<Rightarrow> newsletter_state" where
  "run evs = foldl step initialState evs"

section \<open>The specification's reading of full visibility\<close>


section \<open>The specification's reading of a pending mutation\<close>

text \<open>
  Follows the specification's words, not the source: a mutation for a line is pending
  while the optimistic cart marks the line or the optimistic-state facility still holds an
  unconfirmed patch under the line's identifier.
\<close>

definition mutationPending :: "optimistic_store \<Rightarrow> cart_line \<Rightarrow> bool" where
  "mutationPending store l = (truthy (isOptimistic l) \<or> store (line_id l) \<noteq> None)"

section \<open>Sample inputs\<close>

definition example_media :: "media_fragment list" where
  "example_media =
     [\<lparr>media_id = ''gid://shopify/MediaImage/101'', mediaContentType = IMAGE, alt = None\<rparr>,
      \<lparr>media_id = ''gid://shopify/Video/102'', mediaContentType = VIDEO, alt = Some ''clip''\<rparr>,
      \<lparr>media_id = ''gid://shopify/MediaImage/103'', mediaContentType = IMAGE, alt = None\<rparr>]"

text \<open>
  A page whose rail is 96 wide and 700 high: the first thumbnail lies inside it, the
  third sticks out at the bottom. \<open>parseGid\<close> keeps what follows the last slash.
\<close>

definition lastSegment :: "string \<Rightarrow> string" where
  "lastSegment gid = rev (takeWhile (\<lambda>c. c \<noteq> CHR ''/'') (rev gid))"

definition example_page :: page where
  "example_page =
     \<lparr>parseGid = lastSegment,
      getElementById = (\<lambda>e.
        if e = ''zoom-media--101'' then
          Some \<lparr>rect_x = 32, rect_y = 40, rect_width = 96, rect_height = 96\<rparr>
        else if e = ''zoom-media--103'' then
          Some \<lparr>rect_x = 32, rect_y = 700, rect_width = 96, rect_height = 96\<rparr>
        else None),
      scrollArea = Some \<lparr>rect_x = 32, rect_y = 40, rect_width = 96, rect_height = 700\<rparr>\<rparr>"

definition example_line :: cart_line where
  "example_line =
     \<lparr>line_id = ''gid://shopify/CartLine/7'',
      quantity = Some 3,
      merchandise = Some \<lparr>merchandise_title = ''Large'',
                           product = Some \<lparr>handle = ''tee'', product_title = ''Tee''\<rparr>\<rparr>,
      isOptimistic = None\<rparr>"

definition no_patches :: optimistic_store where
  "no_patches = (\<lambda>ident. None)"

definition remove_pending :: optimistic_store where
  "remove_pending = (\<lambda>ident.
     if ident = ''gid://shopify/CartLine/7''
     then Some \<lparr>action = Some ''remove'', patch_quantity = None\<rparr> else None)"

definition zero_pending :: optimistic_store where
  "zero_pending = (\<lambda>ident.
     if ident = ''gid://shopify/CartLine/7''
     then Some \<lparr>action = None, patch_quantity = Some 0\<rparr> else None)"

definition update_pending :: optimistic_store where
  "update_pending = (\<lambda>ident.
     if ident = ''gid://shopify/CartLine/7''
     then Some \<lparr>action = None, patch_quantity = Some 4\<rparr> else None)"

section \<open>Properties of the media zoom viewer\<close>

subsection \<open>Index resolution\<close>

lemma findIndex_from_range:
  "findIndex_from p k xs = - 1 \<or>
   (k \<le> findIndex_from p k xs \<and> findIndex_from p k xs < k + int (length xs))"
  by (induction xs arbitrary: k) (auto, force+)

lemma findIndex_from_absent:
  "(\<forall>x \<in> set xs. \<not> p x) \<Longrightarrow> findIndex_from p k xs = - 1"
  by (induction xs arbitrary: k) auto

lemma zoomMediaIndex_absent:
  "(\<forall>m \<in> set media. media_id m \<noteq> zoomMediaId) \<Longrightarrow> zoomMediaIndex media zoomMediaId = - 1"
  by (simp add: zoomMediaIndex_def findIndex_def findIndex_from_absent)

lemma find_absent:
  "(\<forall>x \<in> set xs. \<not> p x) \<Longrightarrow> find p xs = None"
  by (induction xs) auto

subsection \<open>Targets at an index inside the list\<close>

lemma nextMediaAt_in_range:
  assumes "0 \<le> i" and "i < int (length media)"
  shows "nextMediaAt media i = Some (media ! nat ((i + 1) mod int (length media)))"
proof (cases "i + 1 < int (length media)")
  case True
  then have "(i + 1) mod int (length media) = i + 1" using assms by simp
  then show ?thesis using True assms by (simp add: nextMediaAt_def js_index_def nullish_def)
next
  case False
  then have e: "i + 1 = int (length media)" using assms by linarith
  have ne: "media \<noteq> []" using assms by auto
  have "(i + 1) mod int (length media) = 0" using e by simp
  then show ?thesis using e ne by (simp add: nextMediaAt_def js_index_def nullish_def)
qed

lemma prevMediaAt_in_range:
  assumes "0 \<le> i" and "i < int (length media)"
  shows "prevMediaAt media i =
           Some (media ! nat ((i - 1 + int (length media)) mod int (length media)))"
proof (cases "i = 0")
  case True
  have pos: "0 < int (length media)" using assms by linarith
  have "(0 - 1 + int (length media)) mod int (length media) = int (length media) - 1"
    using pos by (simp add: zmod_minus1)
  then show ?thesis using True pos by (simp add: prevMediaAt_def js_index_def nullish_def)
next
  case False
  then have p: "0 \<le> i - 1" "i - 1 < int (length media)" using assms by auto
  have "(i - 1 + int (length media)) mod int (length media) = i - 1"
    using p by simp
  then show ?thesis using p by (simp add: prevMediaAt_def js_index_def nullish_def)
qed

text \<open>
  C3. For a media list of length N (at least one item) and a current index i with
  0 \<le> i < N, the next target is the item at index (i + 1) mod N and the previous target
  is the item at index (i - 1 + N) mod N; in particular this is so when i is the index
  that ZoomModal resolved for the selected identifier.
\<close>

theorem zoom_next_prev_wrap:
  assumes "0 \<le> i" and "i < int (length media)"
  shows "nextMediaAt media i = Some (media ! nat ((i + 1) mod int (length media)))
       \<and> prevMediaAt media i = Some (media ! nat ((i - 1 + int (length media)) mod int (length media)))
       \<and> (zoomMediaIndex media zoomMediaId = i \<longrightarrow>
            nextMedia media zoomMediaId = Some (media ! nat ((i + 1) mod int (length media)))
          \<and> prevMedia media zoomMediaId =
              Some (media ! nat ((i - 1 + int (length media)) mod int (length media))))"
  using nextMediaAt_in_range [OF assms] prevMediaAt_in_range [OF assms]
  by (simp add: nextMedia_def prevMedia_def)

theorem zoom_next_prev_wrap_witness:
  "(0::int) \<le> 2 \<and> 2 < int (length example_media)
   \<and> zoomMediaIndex example_media ''gid://shopify/MediaImage/103'' = 2
   \<and> nextMediaAt example_media 2 = Some (example_media ! 0)
   \<and> prevMediaAt example_media 2 = Some (example_media ! 1)
   \<and> nextMedia example_media ''gid://shopify/MediaImage/103'' = Some (example_media ! 0)
   \<and> prevMedia example_media ''gid://shopify/MediaImage/103'' = Some (example_media ! 1)"
proof -
  have l: "int (length example_media) = 3" by (simp add: example_media_def)
  have r: "(0::int) \<le> 2" "2 < int (length example_media)" using l by simp_all
  have z: "zoomMediaIndex example_media ''gid://shopify/MediaImage/103'' = 2"
    by (simp add: zoomMediaIndex_def findIndex_def example_media_def)
  show ?thesis
    using zoom_next_prev_wrap [OF r, of "''gid://shopify/MediaImage/103''"] z l by simp
qed

subsection \<open>Targets at any index\<close>

lemma js_index_member: "js_index xs k = Some x \<Longrightarrow> x \<in> set xs"
proof -
  assume a: "js_index xs k = Some x"
  then have r: "0 \<le> k" "k < int (length xs)" and x: "x = xs ! nat k"
    by (auto simp add: js_index_def split: if_splits)
  from r have "nat k < length xs" by linarith
  then show ?thesis using x by simp
qed

lemma js_index_first: "xs \<noteq> [] \<Longrightarrow> js_index xs 0 = Some (xs ! 0)"
  by (simp add: js_index_def)

lemma js_index_last: "xs \<noteq> [] \<Longrightarrow> js_index xs (int (length xs) - 1) = Some (last xs)"
proof -
  assume ne: "xs \<noteq> []"
  then have pos: "0 < length xs" by simp
  then have n: "nat (int (length xs) - 1) = length xs - 1" by linarith
  have "0 \<le> int (length xs) - 1" using pos by linarith
  then show ?thesis using ne n by (simp add: js_index_def last_conv_nth)
qed

lemma nullish_member:
  assumes "b = Some y" and "y \<in> set xs" and "\<And>x. a = Some x \<Longrightarrow> x \<in> set xs"
  shows "\<exists>m \<in> set xs. nullish a b = Some m"
  using assms by (cases a) (simp_all add: nullish_def)

lemma nextMediaAt_member:
  assumes "media \<noteq> []"
  shows "\<exists>m \<in> set media. nextMediaAt media i = Some m"
  unfolding nextMediaAt_def
proof (rule nullish_member)
  show "js_index media 0 = Some (media ! 0)" using assms by (rule js_index_first)
  show "media ! 0 \<in> set media" using assms by simp
  show "\<And>x. js_index media (i + 1) = Some x \<Longrightarrow> x \<in> set media" by (rule js_index_member)
qed

lemma prevMediaAt_member:
  assumes "media \<noteq> []"
  shows "\<exists>m \<in> set media. prevMediaAt media i = Some m"
  unfolding prevMediaAt_def
proof (rule nullish_member)
  show "js_index media (int (length media) - 1) = Some (last media)"
    using assms by (rule js_index_last)
  show "last media \<in> set media" using assms by simp
  show "\<And>x. js_index media (i - 1) = Some x \<Longrightarrow> x \<in> set media" by (rule js_index_member)
qed

lemma nextMediaAt_minus1:
  "media \<noteq> [] \<Longrightarrow> nextMediaAt media (- 1) = Some (media ! 0)"
  by (simp add: nextMediaAt_def js_index_first nullish_def)

lemma prevMediaAt_minus1:
  "media \<noteq> [] \<Longrightarrow> prevMediaAt media (- 1) = Some (last media)"
proof -
  assume ne: "media \<noteq> []"
  have "js_index media (- 1 - 1) = None" by (simp add: js_index_def)
  then show ?thesis using js_index_last [OF ne] by (simp add: prevMediaAt_def nullish_def)
qed

text \<open>
  C6. For a non-empty media list and a selected identifier that no item carries, the
  index resolves to -1 and both targets are still elements of the list: next falls back
  to the first item (index 0) and prev wraps to the last item; no item is shown.
\<close>

theorem zoom_absent_identifier_fallback:
  assumes "media \<noteq> []" and "\<forall>m \<in> set media. media_id m \<noteq> zoomMediaId"
  shows "zoomMediaIndex media zoomMediaId = - 1
       \<and> zoomMedia media zoomMediaId = None
       \<and> nextMedia media zoomMediaId = Some (media ! 0)
       \<and> prevMedia media zoomMediaId = Some (last media)
       \<and> media ! 0 \<in> set media \<and> last media \<in> set media"
  using assms zoomMediaIndex_absent [OF assms(2)]
  by (simp add: nextMedia_def prevMedia_def nextMediaAt_minus1 prevMediaAt_minus1
      zoomMedia_def find_absent)

theorem zoom_absent_identifier_fallback_witness:
  "example_media \<noteq> []
   \<and> ''gid://shopify/MediaImage/999'' \<notin> set (map media_id example_media)
   \<and> zoomMediaIndex example_media ''gid://shopify/MediaImage/999'' = - 1
   \<and> nextMedia example_media ''gid://shopify/MediaImage/999'' =
       Some \<lparr>media_id = ''gid://shopify/MediaImage/101'', mediaContentType = IMAGE, alt = None\<rparr>
   \<and> prevMedia example_media ''gid://shopify/MediaImage/999'' =
       Some \<lparr>media_id = ''gid://shopify/MediaImage/103'', mediaContentType = IMAGE, alt = None\<rparr>"
proof -
  have ne: "example_media \<noteq> []" by (simp add: example_media_def)
  have ab: "\<forall>m \<in> set example_media. media_id m \<noteq> ''gid://shopify/MediaImage/999''"
    by (simp add: example_media_def)
  have nm: "''gid://shopify/MediaImage/999'' \<notin> set (map media_id example_media)"
    by (simp add: example_media_def)
  show ?thesis
    using zoom_absent_identifier_fallback [OF ne ab] ne nm by (simp add: example_media_def)
qed

text \<open>
  C9. Navigation is total only on a non-empty list. For every non-empty list, whatever
  the selected identifier, the next and the previous target are defined members of the
  list. For the empty list both are undefined, and each navigation action (the four arrow
  keys, the previous button, the next button) throws on reading the id of the undefined
  target, before anything is selected or scrolled.
\<close>

theorem zoom_navigation_total_only_nonempty:
  "(media \<noteq> [] \<longrightarrow>
      (\<exists>m \<in> set media. nextMedia media zoomMediaId = Some m)
    \<and> (\<exists>m \<in> set media. prevMedia media zoomMediaId = Some m))
   \<and> nextMedia [] zoomMediaId = None
   \<and> prevMedia [] zoomMediaId = None
   \<and> (key \<in> {''ArrowRight'', ''ArrowDown'', ''ArrowLeft'', ''ArrowUp''} \<longrightarrow>
        handleKeyDown pg [] zoomMediaId key = Threw TypeError [])
   \<and> onClickPrev pg [] zoomMediaId = Threw TypeError []
   \<and> onClickNext pg [] zoomMediaId = Threw TypeError []"
proof -
  have n: "nextMedia [] zoomMediaId = None"
    by (simp add: nextMedia_def nextMediaAt_def js_index_def nullish_def)
  have p: "prevMedia [] zoomMediaId = None"
    by (simp add: prevMedia_def prevMediaAt_def js_index_def nullish_def)
  have k: "key \<in> {''ArrowRight'', ''ArrowDown'', ''ArrowLeft'', ''ArrowUp''} \<longrightarrow>
        handleKeyDown pg [] zoomMediaId key = Threw TypeError []"
    using n p by (auto simp add: handleKeyDown_def navigateTo_def)
  have b: "onClickPrev pg [] zoomMediaId = Threw TypeError []"
          "onClickNext pg [] zoomMediaId = Threw TypeError []"
    using n p by (simp_all add: onClickPrev_def onClickNext_def navigateTo_def)
  show ?thesis
    using n p k b nextMediaAt_member [of media] prevMediaAt_member [of media]
    by (simp add: nextMedia_def prevMedia_def)
qed

theorem zoom_navigation_total_only_nonempty_witness:
  "example_media \<noteq> []
   \<and> (\<exists>m \<in> set example_media. nextMedia example_media ''gid://shopify/Video/102'' = Some m)
   \<and> (\<exists>m \<in> set example_media. prevMedia example_media ''gid://shopify/Video/102'' = Some m)
   \<and> ''ArrowDown'' \<in> {''ArrowRight'', ''ArrowDown'', ''ArrowLeft'', ''ArrowUp''}
   \<and> handleKeyDown example_page [] ''gid://shopify/Video/102'' ''ArrowDown'' = Threw TypeError []"
proof -
  have ne: "example_media \<noteq> []" by (simp add: example_media_def)
  have k: "''ArrowDown'' \<in> {''ArrowRight'', ''ArrowDown'', ''ArrowLeft'', ''ArrowUp''}" by simp
  show ?thesis
    using zoom_navigation_total_only_nonempty
      [of example_media "''gid://shopify/Video/102''" "''ArrowDown''" example_page] ne k
    by blast
qed

subsection \<open>Scrolling the thumbnail into view\<close>







section \<open>Properties of the cart view\<close>

subsection \<open>Top-level branch\<close>

lemma Cart_empty_branch:
  "totalQuantity cart = 0 \<Longrightarrow>
   Cart layout y (Some cart) optimisticCart =
     CartEmptyView (CartEmpty (optimisticLineCount optimisticCart \<noteq> 0) layout y)"
  by (simp add: Cart_def cartHasItems_def linesCount_def)

lemma hidden_CartEmpty: "hidden (CartEmpty hid layout y) = hid"
  by (simp add: CartEmpty_def)

text \<open>
  C1. With an authoritative cart whose totalQuantity is 0: when the optimistic line
  count is 1 the empty-state view is rendered with the hidden attribute and so is not
  shown; when the optimistic line count is 0 the empty-state view is shown. The details
  view is rendered exactly when the authoritative totalQuantity is greater than 0.
\<close>

theorem cart_empty_state_boundary:
  "(totalQuantity cart = 0 \<and> optimisticLineCount optimisticCart = 1 \<longrightarrow>
      Cart layout y (Some cart) optimisticCart = CartEmptyView (CartEmpty True layout y)
    \<and> hidden (CartEmpty True layout y)
    \<and> \<not> emptyStateShown (Cart layout y (Some cart) optimisticCart))
   \<and> (totalQuantity cart = 0 \<and> optimisticLineCount optimisticCart = 0 \<longrightarrow>
      Cart layout y (Some cart) optimisticCart = CartEmptyView (CartEmpty False layout y)
    \<and> \<not> hidden (CartEmpty False layout y)
    \<and> emptyStateShown (Cart layout y (Some cart) optimisticCart))
   \<and> (detailsRendered (Cart layout y (Some cart) optimisticCart) \<longleftrightarrow> totalQuantity cart > 0)"
proof -
  have d: "detailsRendered (Cart layout y (Some cart) optimisticCart) \<longleftrightarrow> totalQuantity cart > 0"
    by (simp add: Cart_def cartHasItems_def detailsRendered_def)
  show ?thesis
    using d by (simp add: Cart_empty_branch hidden_CartEmpty emptyStateShown_def)
qed

theorem cart_empty_state_boundary_witness:
  "totalQuantity \<lparr>totalQuantity = 0\<rparr> = 0
   \<and> optimisticLineCount (Some \<lparr>lines = Some \<lparr>nodes = Some [example_line]\<rparr>\<rparr>) = 1
   \<and> optimisticLineCount (Some \<lparr>lines = Some \<lparr>nodes = Some []\<rparr>\<rparr>) = 0
   \<and> \<not> emptyStateShown (Cart LayoutDrawer 0 (Some \<lparr>totalQuantity = 0\<rparr>)
          (Some \<lparr>lines = Some \<lparr>nodes = Some [example_line]\<rparr>\<rparr>))
   \<and> emptyStateShown (Cart LayoutDrawer 0 (Some \<lparr>totalQuantity = 0\<rparr>)
          (Some \<lparr>lines = Some \<lparr>nodes = Some []\<rparr>\<rparr>))
   \<and> \<not> detailsRendered (Cart LayoutDrawer 0 (Some \<lparr>totalQuantity = 0\<rparr>)
          (Some \<lparr>lines = Some \<lparr>nodes = Some [example_line]\<rparr>\<rparr>))"
proof -
  have t: "totalQuantity \<lparr>totalQuantity = 0\<rparr> = 0" by simp
  have c1: "optimisticLineCount (Some \<lparr>lines = Some \<lparr>nodes = Some [example_line]\<rparr>\<rparr>) = 1"
    by (simp add: optimisticLineCount_def)
  have c0: "optimisticLineCount (Some \<lparr>lines = Some \<lparr>nodes = Some []\<rparr>\<rparr>) = 0"
    by (simp add: optimisticLineCount_def)
  note one = cart_empty_state_boundary [of "\<lparr>totalQuantity = 0\<rparr>"
      "Some \<lparr>lines = Some \<lparr>nodes = Some [example_line]\<rparr>\<rparr>" LayoutDrawer 0]
  note none = cart_empty_state_boundary [of "\<lparr>totalQuantity = 0\<rparr>"
      "Some \<lparr>lines = Some \<lparr>nodes = Some []\<rparr>\<rparr>" LayoutDrawer 0]
  have h: "\<not> emptyStateShown (Cart LayoutDrawer 0 (Some \<lparr>totalQuantity = 0\<rparr>)
          (Some \<lparr>lines = Some \<lparr>nodes = Some [example_line]\<rparr>\<rparr>))"
    using one t c1 by blast
  have s: "emptyStateShown (Cart LayoutDrawer 0 (Some \<lparr>totalQuantity = 0\<rparr>)
          (Some \<lparr>lines = Some \<lparr>nodes = Some []\<rparr>\<rparr>))"
    using none t c0 by blast
  have "detailsRendered (Cart LayoutDrawer 0 (Some \<lparr>totalQuantity = 0\<rparr>)
          (Some \<lparr>lines = Some \<lparr>nodes = Some [example_line]\<rparr>\<rparr>))
        \<longleftrightarrow> totalQuantity \<lparr>totalQuantity = 0\<rparr> > 0"
    using one by blast
  then have d: "\<not> detailsRendered (Cart LayoutDrawer 0 (Some \<lparr>totalQuantity = 0\<rparr>)
          (Some \<lparr>lines = Some \<lparr>nodes = Some [example_line]\<rparr>\<rparr>))"
    by simp
  show ?thesis using t c1 c0 h s d by blast
qed

subsection \<open>Quantity adjuster\<close>

lemma CartLineQuantityAdjust_Some:
  assumes "quantity l = Some lq"
  shows "CartLineQuantityAdjust store (Some l) =
    Some
      \<lparr>label_quantity = optimisticQuantityOf (store (line_id l)) lq,
       decrease =
         \<lparr>form = UpdateCartButton
            (Some (line_id l, \<lparr>action = None,
               patch_quantity = Some (toFixed0 (max 0 (optimisticQuantityOf (store (line_id l)) lq - 1)))\<rparr>))
            [\<lparr>input_id = line_id l,
              input_quantity = toFixed0 (max 0 (optimisticQuantityOf (store (line_id l)) lq - 1))\<rparr>],
          button_name = ''decrease-quantity'',
          button_value = toFixed0 (max 0 (optimisticQuantityOf (store (line_id l)) lq - 1)),
          disabled = (optimisticQuantityOf (store (line_id l)) lq \<le> 1 \<or> truthy (isOptimistic l))\<rparr>,
       item_quantity = optimisticQuantityOf (store (line_id l)) lq,
       increase =
         \<lparr>form = UpdateCartButton
            (Some (line_id l, \<lparr>action = None,
               patch_quantity = Some (toFixed0 (optimisticQuantityOf (store (line_id l)) lq + 1))\<rparr>))
            [\<lparr>input_id = line_id l,
              input_quantity = toFixed0 (optimisticQuantityOf (store (line_id l)) lq + 1)\<rparr>],
          button_name = ''increase-quantity'',
          button_value = toFixed0 (optimisticQuantityOf (store (line_id l)) lq + 1),
          disabled = truthy (isOptimistic l)\<rparr>\<rparr>"
  using assms by (simp add: CartLineQuantityAdjust_def useOptimisticData_def Let_def)

lemma CartLineQuantityAdjust_None:
  "quantity l = None \<Longrightarrow> CartLineQuantityAdjust store (Some l) = None"
  by (simp add: CartLineQuantityAdjust_def)

lemma CartLineQuantityAdjust_rendered:
  "CartLineQuantityAdjust store (Some l) = Some r \<Longrightarrow> \<exists>lq. quantity l = Some lq"
  by (cases "quantity l") (simp_all add: CartLineQuantityAdjust_None)

text \<open>
  C2, as stated, fails. A quantity patch (4) is pending for the sample line, so a mutation
  for that line is pending; the displayed quantity is 4; yet neither the decrement nor
  the increment control is disabled, because the optimistic cart has not put its flag
  on the line.
\<close>

theorem pending_patch_leaves_controls_enabled:
  "mutationPending update_pending example_line
   \<and> map_option item_quantity (CartLineQuantityAdjust update_pending (Some example_line)) = Some 4
   \<and> map_option disabled (map_option decrease
        (CartLineQuantityAdjust update_pending (Some example_line))) = Some False
   \<and> map_option disabled (map_option increase
        (CartLineQuantityAdjust update_pending (Some example_line))) = Some False"
proof -
  have q3: "quantity example_line = Some 3" by (simp add: example_line_def)
  have p: "mutationPending update_pending example_line"
    by (simp add: mutationPending_def update_pending_def example_line_def)
  have o: "optimisticQuantityOf (update_pending (line_id example_line)) 3 = 4"
    by (simp add: optimisticQuantityOf_def update_pending_def example_line_def number_or_def)
  have f: "truthy (isOptimistic example_line) = False"
    by (simp add: example_line_def truthy_def)
  show ?thesis
    using p by (simp add: CartLineQuantityAdjust_Some [OF q3] o f)
qed

text \<open>
  C2, amended. For every cart line whose adjuster is rendered (every line that has a
  quantity), the decrement control is disabled if and only if the displayed (optimistic)
  quantity is at most 1 or the line carries the flag of the optimistic cart
  (\<open>isOptimistic\<close>), and the increment control is disabled if and only if the line carries
  that flag. The pending patches enter only through the displayed quantity: a mutation
  pending for a line without the flag leaves the increment control enabled, and the
  decrement control too when the displayed quantity is above 1.
\<close>

theorem quantity_controls_disabled_iff:
  assumes "CartLineQuantityAdjust store (Some l) = Some r"
  shows "(disabled (decrease r) \<longleftrightarrow> item_quantity r \<le> 1 \<or> truthy (isOptimistic l))
       \<and> (disabled (increase r) \<longleftrightarrow> truthy (isOptimistic l))
       \<and> label_quantity r = item_quantity r
       \<and> (\<exists>lq. quantity l = Some lq
              \<and> item_quantity r = optimisticQuantityOf (store (line_id l)) lq)
       \<and> (mutationPending store l \<and> \<not> truthy (isOptimistic l) \<longrightarrow> \<not> disabled (increase r))
       \<and> (mutationPending store l \<and> \<not> truthy (isOptimistic l) \<and> 1 < item_quantity r \<longrightarrow>
            \<not> disabled (decrease r))"
proof -
  obtain lq where q: "quantity l = Some lq"
    using CartLineQuantityAdjust_rendered [OF assms] by blast
  show ?thesis
    using assms q unfolding CartLineQuantityAdjust_Some [OF q] by auto
qed

theorem quantity_controls_disabled_iff_witness:
  "(\<exists>r. CartLineQuantityAdjust no_patches (Some example_line) = Some r
        \<and> item_quantity r = 3 \<and> \<not> disabled (decrease r) \<and> \<not> disabled (increase r))
   \<and> (\<exists>r. CartLineQuantityAdjust no_patches (Some (example_line\<lparr>quantity := Some 1\<rparr>)) = Some r
        \<and> item_quantity r = 1 \<and> disabled (decrease r) \<and> \<not> disabled (increase r))
   \<and> (\<exists>r. CartLineQuantityAdjust no_patches (Some (example_line\<lparr>isOptimistic := Some True\<rparr>)) = Some r
        \<and> item_quantity r = 3 \<and> disabled (decrease r) \<and> disabled (increase r))
   \<and> mutationPending update_pending example_line
   \<and> (\<exists>r. CartLineQuantityAdjust update_pending (Some example_line) = Some r
        \<and> item_quantity r = 4 \<and> \<not> disabled (decrease r) \<and> \<not> disabled (increase r))"
proof -
  have q3: "quantity example_line = Some 3" by (simp add: example_line_def)
  have q1: "quantity (example_line\<lparr>quantity := Some 1\<rparr>) = Some 1" by simp
  have qo: "quantity (example_line\<lparr>isOptimistic := Some True\<rparr>) = Some 3"
    by (simp add: example_line_def)
  have o: "optimisticQuantityOf (no_patches ident) lq = lq" for ident lq
    by (simp add: optimisticQuantityOf_def no_patches_def number_or_def)
  have ou: "optimisticQuantityOf (update_pending (line_id example_line)) 3 = 4"
    by (simp add: optimisticQuantityOf_def update_pending_def example_line_def number_or_def)
  have f: "truthy (isOptimistic example_line) = False"
          "truthy (isOptimistic (example_line\<lparr>quantity := Some 1\<rparr>)) = False"
          "truthy (isOptimistic (example_line\<lparr>isOptimistic := Some True\<rparr>)) = True"
    by (simp_all add: example_line_def truthy_def)
  have p: "mutationPending update_pending example_line"
    by (simp add: mutationPending_def update_pending_def example_line_def)
  have a: "\<exists>r. CartLineQuantityAdjust no_patches (Some example_line) = Some r
        \<and> item_quantity r = 3 \<and> \<not> disabled (decrease r) \<and> \<not> disabled (increase r)"
    using quantity_controls_disabled_iff [OF CartLineQuantityAdjust_Some [OF q3, of no_patches]] f
    by (simp add: CartLineQuantityAdjust_Some [OF q3] o)
  have b: "\<exists>r. CartLineQuantityAdjust no_patches (Some (example_line\<lparr>quantity := Some 1\<rparr>)) = Some r
        \<and> item_quantity r = 1 \<and> disabled (decrease r) \<and> \<not> disabled (increase r)"
    using quantity_controls_disabled_iff [OF CartLineQuantityAdjust_Some [OF q1, of no_patches]] f
    by (simp add: CartLineQuantityAdjust_Some [OF q1] o)
  have c: "\<exists>r. CartLineQuantityAdjust no_patches (Some (example_line\<lparr>isOptimistic := Some True\<rparr>)) = Some r
        \<and> item_quantity r = 3 \<and> disabled (decrease r) \<and> disabled (increase r)"
    using quantity_controls_disabled_iff [OF CartLineQuantityAdjust_Some [OF qo, of no_patches]] f
    by (simp add: CartLineQuantityAdjust_Some [OF qo] o)
  have d: "\<exists>r. CartLineQuantityAdjust update_pending (Some example_line) = Some r
        \<and> item_quantity r = 4 \<and> \<not> disabled (decrease r) \<and> \<not> disabled (increase r)"
    using quantity_controls_disabled_iff [OF CartLineQuantityAdjust_Some [OF q3, of update_pending]]
      f p
    by (simp add: CartLineQuantityAdjust_Some [OF q3] ou)
  show ?thesis using a b c p d by blast
qed

subsection \<open>Rounding\<close>

lemma floor_int_plus_half: "\<lfloor>(of_int k :: rat) + 1 / 2\<rfloor> = k"
  by (rule floor_unique) simp_all

lemma toFixed0_of_int: "toFixed0 (of_int k) = of_int k"
proof (cases "(of_int k :: rat) < 0")
  case True
  have "\<lfloor>- (of_int k :: rat) + 1 / 2\<rfloor> = - k"
    using floor_int_plus_half [of "- k"] by simp
  then show ?thesis using True by (simp add: toFixed0_def)
next
  case False
  then show ?thesis by (simp add: toFixed0_def floor_int_plus_half)
qed

lemma toFixed0_Ints: "x \<in> \<int> \<Longrightarrow> toFixed0 x = x"
  by (auto simp add: Ints_def toFixed0_of_int)

lemma toFixed0_in_Ints: "toFixed0 x \<in> \<int>"
  by (simp add: toFixed0_def)

lemma floor_half_near: "\<bar>of_int \<lfloor>y + 1 / 2\<rfloor> - (y :: rat)\<bar> \<le> 1 / 2"
proof -
  define n where "n = (of_int \<lfloor>y + 1 / 2\<rfloor> :: rat)"
  have lo: "n \<le> y + 1 / 2" unfolding n_def by (rule of_int_floor_le)
  have hi: "y + 1 / 2 < n + 1" unfolding n_def using floor_correct [of "y + 1 / 2"] by simp
  have "\<bar>n - y\<bar> \<le> 1 / 2" using lo hi by linarith
  then show ?thesis unfolding n_def .
qed

lemma toFixed0_nearest: "\<bar>toFixed0 x - x\<bar> \<le> 1 / 2"
proof (cases "x < 0")
  case True
  have "- of_int \<lfloor>- x + 1 / 2\<rfloor> - x = - (of_int \<lfloor>- x + 1 / 2\<rfloor> - (- x))" by simp
  then have "\<bar>- of_int \<lfloor>- x + 1 / 2\<rfloor> - x\<bar> = \<bar>of_int \<lfloor>- x + 1 / 2\<rfloor> - (- x)\<bar>"
    by (simp only: abs_minus_cancel)
  then show ?thesis using True floor_half_near [of "- x"] by (simp only: toFixed0_def if_True)
next
  case False
  then show ?thesis using floor_half_near [of x] by (simp only: toFixed0_def if_False)
qed

lemma Ints_max_pred: "(q :: rat) \<in> \<int> \<Longrightarrow> max 0 (q - 1) \<in> \<int>"
  by (simp add: max_def)

text \<open>
  C7. For every cart line whose adjuster is rendered, with displayed quantity q: the
  decrement target is max(0, q - 1) rounded to an integer and the increment target is
  q + 1 rounded to an integer (rounding leaves an integer as it is and moves any number
  by at most one half), and each button sits in a line-update form posted to the cart
  route whose input is exactly that line with that target quantity, the same target
  being the optimistic patch attached to the button.
\<close>

theorem quantity_targets:
  assumes "CartLineQuantityAdjust store (Some l) = Some r"
  shows "button_value (decrease r) = toFixed0 (max 0 (item_quantity r - 1))
       \<and> button_value (increase r) = toFixed0 (item_quantity r + 1)
       \<and> form (decrease r) =
           \<lparr>route = ''/cart'', form_action = LinesUpdate,
            inputs = Lines [\<lparr>input_id = line_id l,
                             input_quantity = toFixed0 (max 0 (item_quantity r - 1))\<rparr>],
            optimisticInput = Some (line_id l,
              \<lparr>action = None, patch_quantity = Some (toFixed0 (max 0 (item_quantity r - 1)))\<rparr>)\<rparr>
       \<and> form (increase r) =
           \<lparr>route = ''/cart'', form_action = LinesUpdate,
            inputs = Lines [\<lparr>input_id = line_id l,
                             input_quantity = toFixed0 (item_quantity r + 1)\<rparr>],
            optimisticInput = Some (line_id l,
              \<lparr>action = None, patch_quantity = Some (toFixed0 (item_quantity r + 1))\<rparr>)\<rparr>
       \<and> button_value (decrease r) \<in> \<int> \<and> button_value (increase r) \<in> \<int>
       \<and> \<bar>button_value (decrease r) - max 0 (item_quantity r - 1)\<bar> \<le> 1 / 2
       \<and> \<bar>button_value (increase r) - (item_quantity r + 1)\<bar> \<le> 1 / 2
       \<and> (item_quantity r \<in> \<int> \<longrightarrow>
            button_value (decrease r) = max 0 (item_quantity r - 1)
          \<and> button_value (increase r) = item_quantity r + 1)"
proof -
  obtain lq where q: "quantity l = Some lq"
    using CartLineQuantityAdjust_rendered [OF assms] by blast
  have d: "button_value (decrease r) = toFixed0 (max 0 (item_quantity r - 1))"
    and i: "button_value (increase r) = toFixed0 (item_quantity r + 1)"
    using assms unfolding CartLineQuantityAdjust_Some [OF q] by auto
  have fd: "form (decrease r) =
           \<lparr>route = ''/cart'', form_action = LinesUpdate,
            inputs = Lines [\<lparr>input_id = line_id l,
                             input_quantity = toFixed0 (max 0 (item_quantity r - 1))\<rparr>],
            optimisticInput = Some (line_id l,
              \<lparr>action = None, patch_quantity = Some (toFixed0 (max 0 (item_quantity r - 1)))\<rparr>)\<rparr>"
    using assms unfolding CartLineQuantityAdjust_Some [OF q]
    by (auto simp add: UpdateCartButton_def)
  have fi: "form (increase r) =
           \<lparr>route = ''/cart'', form_action = LinesUpdate,
            inputs = Lines [\<lparr>input_id = line_id l,
                             input_quantity = toFixed0 (item_quantity r + 1)\<rparr>],
            optimisticInput = Some (line_id l,
              \<lparr>action = None, patch_quantity = Some (toFixed0 (item_quantity r + 1))\<rparr>)\<rparr>"
    using assms unfolding CartLineQuantityAdjust_Some [OF q]
    by (auto simp add: UpdateCartButton_def)
  have z: "button_value (decrease r) \<in> \<int>" "button_value (increase r) \<in> \<int>"
    unfolding d i by (rule toFixed0_in_Ints)+
  have n: "\<bar>button_value (decrease r) - max 0 (item_quantity r - 1)\<bar> \<le> 1 / 2"
          "\<bar>button_value (increase r) - (item_quantity r + 1)\<bar> \<le> 1 / 2"
    unfolding d i by (rule toFixed0_nearest)+
  have e: "item_quantity r \<in> \<int> \<longrightarrow>
            button_value (decrease r) = max 0 (item_quantity r - 1)
          \<and> button_value (increase r) = item_quantity r + 1"
    unfolding d i by (simp add: toFixed0_Ints Ints_max_pred)
  show ?thesis using d i fd fi z n e by blast
qed

theorem quantity_targets_witness:
  "\<exists>r. CartLineQuantityAdjust no_patches (Some example_line) = Some r
      \<and> item_quantity r = 3 \<and> item_quantity r \<in> \<int>
      \<and> button_value (decrease r) = 2 \<and> button_value (increase r) = 4
      \<and> inputs (form (decrease r)) =
          Lines [\<lparr>input_id = ''gid://shopify/CartLine/7'', input_quantity = 2\<rparr>]
      \<and> inputs (form (increase r)) =
          Lines [\<lparr>input_id = ''gid://shopify/CartLine/7'', input_quantity = 4\<rparr>]"
proof -
  have q3: "quantity example_line = Some 3" by (simp add: example_line_def)
  obtain r where r: "CartLineQuantityAdjust no_patches (Some example_line) = Some r"
    using CartLineQuantityAdjust_Some [OF q3, of no_patches] by blast
  have iq: "item_quantity r = 3"
    using r unfolding CartLineQuantityAdjust_Some [OF q3]
    by (auto simp add: optimisticQuantityOf_def no_patches_def number_or_def)
  have zi: "item_quantity r \<in> \<int>" unfolding iq by simp
  have id: "line_id example_line = ''gid://shopify/CartLine/7''" by (simp add: example_line_def)
  note t = quantity_targets [OF r]
  have d: "button_value (decrease r) = 2" and i: "button_value (increase r) = 4"
    using t zi iq by simp_all
  have fd: "inputs (form (decrease r)) =
          Lines [\<lparr>input_id = ''gid://shopify/CartLine/7'', input_quantity = 2\<rparr>]"
    using t d id by simp
  have fi: "inputs (form (increase r)) =
          Lines [\<lparr>input_id = ''gid://shopify/CartLine/7'', input_quantity = 4\<rparr>]"
    using t i id by simp
  show ?thesis using r iq zi d i fd fi by blast
qed

text \<open>
  C10. For every cart line with a quantity and a pending optimistic patch: when the
  patch quantity is 0 the displayed quantity is the line's own quantity, not 0; it is
  also the line's own quantity when the patch has no quantity; the patch quantity is
  displayed only when it is nonzero.
\<close>

theorem zero_patch_falls_back:
  assumes "quantity l = Some lq" and "store (line_id l) = Some od"
  shows "\<exists>r. CartLineQuantityAdjust store (Some l) = Some r
           \<and> label_quantity r = item_quantity r
           \<and> (patch_quantity od = Some 0 \<longrightarrow> item_quantity r = lq)
           \<and> (patch_quantity od = None \<longrightarrow> item_quantity r = lq)
           \<and> (\<forall>v. patch_quantity od = Some v \<and> v \<noteq> 0 \<longrightarrow> item_quantity r = v)"
  unfolding CartLineQuantityAdjust_Some [OF assms(1)]
  using assms(2) by (simp add: optimisticQuantityOf_def number_or_def)

theorem zero_patch_falls_back_witness:
  "quantity example_line = Some 3
   \<and> zero_pending (line_id example_line) = Some \<lparr>action = None, patch_quantity = Some 0\<rparr>
   \<and> (\<exists>r. CartLineQuantityAdjust zero_pending (Some example_line) = Some r \<and> item_quantity r = 3)
   \<and> remove_pending (line_id example_line) = Some \<lparr>action = Some ''remove'', patch_quantity = None\<rparr>
   \<and> (\<exists>r. CartLineQuantityAdjust remove_pending (Some example_line) = Some r \<and> item_quantity r = 3)
   \<and> (\<exists>r. CartLineQuantityAdjust (\<lambda>ident. Some \<lparr>action = None, patch_quantity = Some 5\<rparr>)
             (Some example_line) = Some r \<and> item_quantity r = 5)"
proof -
  have q3: "quantity example_line = Some 3" by (simp add: example_line_def)
  have z: "zero_pending (line_id example_line) = Some \<lparr>action = None, patch_quantity = Some 0\<rparr>"
    by (simp add: zero_pending_def example_line_def)
  have rm: "remove_pending (line_id example_line) =
      Some \<lparr>action = Some ''remove'', patch_quantity = None\<rparr>"
    by (simp add: remove_pending_def example_line_def)
  have f: "(\<lambda>ident. Some \<lparr>action = None, patch_quantity = Some 5\<rparr>) (line_id example_line) =
      Some \<lparr>action = None, patch_quantity = Some (5::rat)\<rparr>"
    by simp
  have a: "\<exists>r. CartLineQuantityAdjust zero_pending (Some example_line) = Some r \<and> item_quantity r = 3"
    using zero_patch_falls_back [where store = zero_pending and l = example_line, OF q3 z] by auto
  have b: "\<exists>r. CartLineQuantityAdjust remove_pending (Some example_line) = Some r \<and> item_quantity r = 3"
    using zero_patch_falls_back [where store = remove_pending and l = example_line, OF q3 rm] by auto
  have c: "\<exists>r. CartLineQuantityAdjust (\<lambda>ident. Some \<lparr>action = None, patch_quantity = Some 5\<rparr>)
             (Some example_line) = Some r \<and> item_quantity r = 5"
    using zero_patch_falls_back
      [where store = "\<lambda>ident. Some \<lparr>action = None, patch_quantity = Some 5\<rparr>"
         and l = example_line, OF q3 f]
    by auto
  show ?thesis using q3 z rm a b c by blast
qed

subsection \<open>Line item\<close>

lemma CartLineItem_Some:
  assumes "line_id l \<noteq> []" and "quantity l = Some q"
    and "Option.bind (merchandise l) product = Some pr"
  shows "CartLineItem store layout (Some l) =
    Some
      \<lparr>display = (if Option.bind (store (line_id l)) action = Some ''remove''
                  then ''none'' else ''flex''),
       removeButtonTop =
         (if layout = LayoutDrawer then Some (ItemRemoveButton (line_id l)) else None),
       quantityAdjust = CartLineQuantityAdjust store (Some l),
       removeButtonRow =
         (if layout = LayoutPage then Some (ItemRemoveButton (line_id l)) else None)\<rparr>"
  using assms by (simp add: CartLineItem_def useOptimisticData_def)

lemma CartLineItem_rendered:
  "(\<exists>item. CartLineItem store layout (Some l) = Some item) \<longleftrightarrow>
   line_id l \<noteq> [] \<and> quantity l \<noteq> None \<and> Option.bind (merchandise l) product \<noteq> None"
  by (auto simp add: CartLineItem_def split: option.splits)

lemma remove_form_mounted:
  "ItemRemoveButton ident \<in> set (mountedForms
      \<lparr>display = d,
       removeButtonTop = (if layout = LayoutDrawer then Some (ItemRemoveButton ident) else None),
       quantityAdjust = qa,
       removeButtonRow = (if layout = LayoutPage then Some (ItemRemoveButton ident) else None)\<rparr>)"
  by (cases layout) (simp_all add: mountedForms_def)

text \<open>
  What the view does with a line it is handed. Under a patch with action "remove" the
  rendered line item has display none, and the line-removal form for this line (posted
  to the cart route, with the line's identifier as its only input and the optimistic
  remove marker attached) is among the forms mounted in it, in either layout. Whether the
  line item is rendered does not depend on the optimistic patches; a line with an
  identifier, a quantity and a product is rendered.
\<close>

lemma line_item_remove_patch:
  assumes "Option.bind (store (line_id l)) action = Some ''remove''"
  shows "(\<forall>item. CartLineItem store layout (Some l) = Some item \<longrightarrow>
            display item = ''none''
          \<and> ItemRemoveButton (line_id l) \<in> set (mountedForms item)
          \<and> \<lparr>route = ''/cart'', form_action = LinesRemove, inputs = LineIds [line_id l],
              optimisticInput =
                Some (line_id l, \<lparr>action = Some ''remove'', patch_quantity = None\<rparr>)\<rparr>
              \<in> set (mountedForms item))
       \<and> ((\<exists>item. CartLineItem store layout (Some l) = Some item) \<longleftrightarrow>
          (\<exists>item'. CartLineItem store' layout (Some l) = Some item'))
       \<and> (line_id l \<noteq> [] \<and> quantity l \<noteq> None \<and> Option.bind (merchandise l) product \<noteq> None \<longrightarrow>
            (\<exists>item. CartLineItem store layout (Some l) = Some item))"
proof -
  have a: "display item = ''none'' \<and> ItemRemoveButton (line_id l) \<in> set (mountedForms item)"
    if r: "CartLineItem store layout (Some l) = Some item" for item
  proof -
    from r have "line_id l \<noteq> [] \<and> quantity l \<noteq> None \<and> Option.bind (merchandise l) product \<noteq> None"
      using CartLineItem_rendered [of store layout l] by blast
    then obtain q pr where h: "line_id l \<noteq> []" "quantity l = Some q"
        "Option.bind (merchandise l) product = Some pr"
      by auto
    have "item =
      \<lparr>display = ''none'',
       removeButtonTop =
         (if layout = LayoutDrawer then Some (ItemRemoveButton (line_id l)) else None),
       quantityAdjust = CartLineQuantityAdjust store (Some l),
       removeButtonRow =
         (if layout = LayoutPage then Some (ItemRemoveButton (line_id l)) else None)\<rparr>"
      using r assms unfolding CartLineItem_Some [OF h] by simp
    then show ?thesis using remove_form_mounted [of "line_id l" "''none''" layout] by simp
  qed
  have f: "ItemRemoveButton (line_id l) =
      \<lparr>route = ''/cart'', form_action = LinesRemove, inputs = LineIds [line_id l],
       optimisticInput =
         Some (line_id l, \<lparr>action = Some ''remove'', patch_quantity = None\<rparr>)\<rparr>"
    by (simp add: ItemRemoveButton_def)
  show ?thesis
    using a CartLineItem_rendered [of store layout l] CartLineItem_rendered [of store' layout l]
    unfolding f [symmetric] by blast
qed

lemma line_item_remove_patch_example:
  "Option.bind (remove_pending (line_id example_line)) action = Some ''remove''
   \<and> (\<exists>item. CartLineItem remove_pending LayoutDrawer (Some example_line) = Some item
         \<and> display item = ''none''
         \<and> ItemRemoveButton ''gid://shopify/CartLine/7'' \<in> set (mountedForms item))
   \<and> (\<exists>item'. CartLineItem no_patches LayoutDrawer (Some example_line) = Some item')"
proof -
  have p: "Option.bind (remove_pending (line_id example_line)) action = Some ''remove''"
    by (simp add: remove_pending_def example_line_def)
  have w: "line_id example_line \<noteq> [] \<and> quantity example_line \<noteq> None
      \<and> Option.bind (merchandise example_line) product \<noteq> None"
    by (simp add: example_line_def)
  have id: "line_id example_line = ''gid://shopify/CartLine/7''" by (simp add: example_line_def)
  note t = line_item_remove_patch
    [where store = remove_pending and l = example_line and layout = LayoutDrawer
       and store' = no_patches, OF p]
  from t w obtain item where
    i: "CartLineItem remove_pending LayoutDrawer (Some example_line) = Some item"
    by blast
  from t i have d: "display item = ''none''"
    and m: "ItemRemoveButton (line_id example_line) \<in> set (mountedForms item)"
    by blast+
  from t i have o: "\<exists>item'. CartLineItem no_patches LayoutDrawer (Some example_line) = Some item'"
    by blast
  show ?thesis using p i d m o unfolding id by blast
qed

subsection \<open>The lines under the details view\<close>

lemma Cart_details_lines:
  assumes "cartHasItems cart"
    and "Option.bind (Option.bind optimisticCart lines) nodes = Some ns"
  shows "renderedLines store (Cart layout y cart optimisticCart) =
           Inr (map (\<lambda>line. CartLineItem store layout (Some line)) ns)"
proof -
  obtain c where c: "optimisticCart = Some c" using assms(2) by (cases optimisticCart) simp_all
  show ?thesis
    using assms c by (simp add: Cart_def renderedLines_def CartDetailsLines_def CartLines_def)
qed

text \<open>
  The view renders one line item for each line of the optimistic cart, and only for
  those: a line among them with a remove patch is hidden with its removal form mounted.
\<close>

lemma Cart_handed_line_keeps_form:
  assumes "cartHasItems cart"
    and "Option.bind (Option.bind optimisticCart lines) nodes = Some ns"
    and "l \<in> set ns"
    and "line_id l \<noteq> []" and "quantity l \<noteq> None"
    and "Option.bind (merchandise l) product \<noteq> None"
    and "Option.bind (store (line_id l)) action = Some ''remove''"
  shows "\<exists>items item.
           renderedLines store (Cart layout y cart optimisticCart) = Inr items
         \<and> length items = length ns
         \<and> Some item \<in> set items
         \<and> display item = ''none''
         \<and> \<lparr>route = ''/cart'', form_action = LinesRemove, inputs = LineIds [line_id l],
             optimisticInput =
               Some (line_id l, \<lparr>action = Some ''remove'', patch_quantity = None\<rparr>)\<rparr>
             \<in> set (mountedForms item)
         \<and> \<lparr>route = ''/cart'', form_action = LinesRemove, inputs = LineIds [line_id l],
             optimisticInput =
               Some (line_id l, \<lparr>action = Some ''remove'', patch_quantity = None\<rparr>)\<rparr>
             \<in> set (mountedLineForms store (Cart layout y cart optimisticCart))"
proof -
  let ?f = "\<lparr>route = ''/cart'', form_action = LinesRemove, inputs = LineIds [line_id l],
             optimisticInput =
               Some (line_id l, \<lparr>action = Some ''remove'', patch_quantity = None\<rparr>)\<rparr>"
  let ?items = "map (\<lambda>line. CartLineItem store layout (Some line)) ns"
  note t = line_item_remove_patch [where store = store and l = l and layout = layout
      and store' = store, OF assms(7)]
  from t assms(4,5,6) obtain item where i: "CartLineItem store layout (Some l) = Some item"
    by blast
  from t i have d: "display item = ''none''" and m: "?f \<in> set (mountedForms item)"
    by blast+
  have r: "renderedLines store (Cart layout y cart optimisticCart) = Inr ?items"
    using assms(1,2) by (rule Cart_details_lines)
  have s: "Some item \<in> set ?items" using assms(3) i by force
  have "?f \<in> set (concat (map (\<lambda>i. case i of None \<Rightarrow> [] | Some item \<Rightarrow> mountedForms item) ?items))"
    using s m by force
  then have c: "?f \<in> set (mountedLineForms store (Cart layout y cart optimisticCart))"
    unfolding mountedLineForms_def r by simp
  show ?thesis using r s d m c by auto
qed

text \<open>
  C5. The claim promises that an optimistic remove never unmounts the removal form of
  the line. The view breaks it one level above the line item. The cart below still holds
  the sample line (total quantity 3) and a removal of that line is pending, so its patch
  has action "remove"; the optimistic cart has already dropped the line from the lines it
  hands over. \<open>Cart\<close> takes the details branch and renders the lines of the optimistic
  cart only: no line item is rendered for the line, and its removal form is not among
  the mounted forms. The line item is unmounted, not hidden.
\<close>

theorem cart_dropped_line_form_unmounted:
  "Option.bind (remove_pending (line_id example_line)) action = Some ''remove''
   \<and> cartHasItems (Some \<lparr>totalQuantity = 3\<rparr>)
   \<and> Cart LayoutDrawer 0 (Some \<lparr>totalQuantity = 3\<rparr>) (Some \<lparr>lines = Some \<lparr>nodes = Some []\<rparr>\<rparr>) =
       CartDetails LayoutDrawer (Some \<lparr>lines = Some \<lparr>nodes = Some []\<rparr>\<rparr>)
   \<and> renderedLines remove_pending
       (Cart LayoutDrawer 0 (Some \<lparr>totalQuantity = 3\<rparr>) (Some \<lparr>lines = Some \<lparr>nodes = Some []\<rparr>\<rparr>)) =
       Inr []
   \<and> mountedLineForms remove_pending
       (Cart LayoutDrawer 0 (Some \<lparr>totalQuantity = 3\<rparr>) (Some \<lparr>lines = Some \<lparr>nodes = Some []\<rparr>\<rparr>)) =
       []
   \<and> ItemRemoveButton (line_id example_line) \<notin> set (mountedLineForms remove_pending
       (Cart LayoutDrawer 0 (Some \<lparr>totalQuantity = 3\<rparr>) (Some \<lparr>lines = Some \<lparr>nodes = Some []\<rparr>\<rparr>)))"
  by (simp add: remove_pending_def example_line_def cartHasItems_def Cart_def renderedLines_def
      CartDetailsLines_def CartLines_def mountedLineForms_def)

section \<open>Properties of the newsletter form\<close>

lemma run_snoc: "run (evs @ [ev]) = step (run evs) ev"
  by (simp add: run_def)

lemma run_submit_completed:
  "run (evs @ [Submit, Completed r]) = onResponse (onSubmit (run evs)) (Some r)"
  by (simp add: run_def)

text \<open>
  C4. After any earlier events, a submission completed by {ok: false, error: "Invalid
  email"} displays the error "Invalid email"; completed by {ok: false} with no error field
  it displays the generic fallback text; completed by {ok: true} it displays the success
  message and no error. Starting a submission clears both texts, so that nothing is
  displayed until the response arrives.
\<close>

theorem newsletter_messages:
  "render (run (evs @ [Submit, Completed \<lparr>ok = False, response_error = Some ''Invalid email''\<rparr>])) =
     \<lparr>error_box = Some ''Invalid email'', message_box = None\<rparr>
   \<and> render (run (evs @ [Submit, Completed \<lparr>ok = False, response_error = None\<rparr>])) =
     \<lparr>error_box = Some ''An error occurred while signing up.'', message_box = None\<rparr>
   \<and> render (run (evs @ [Submit, Completed \<lparr>ok = True, response_error = e\<rparr>])) =
     \<lparr>error_box = None, message_box = Some successMessage\<rparr>
   \<and> run (evs @ [Submit]) = \<lparr>message = [], error = []\<rparr>
   \<and> render (run (evs @ [Submit])) = \<lparr>error_box = None, message_box = None\<rparr>
   \<and> error (onResponse s (Some \<lparr>ok = False, response_error = Some ''Invalid email''\<rparr>)) =
       ''Invalid email''
   \<and> error (onResponse s (Some \<lparr>ok = False, response_error = None\<rparr>)) =
       ''An error occurred while signing up.''
   \<and> message (onResponse s (Some \<lparr>ok = True, response_error = e\<rparr>)) = successMessage
   \<and> onSubmit s = \<lparr>message = [], error = []\<rparr>"
  unfolding run_submit_completed run_snoc
  by (simp add: onResponse_def onSubmit_def render_def string_or_def fallbackError_def
      successMessage_def)

end
